theory Spec2Isabelle
  imports Main
begin

section \<open>JavaScript values\<close>

text \<open>
  The controllers of ecoflow-authentication read untyped pipeline inputs and write untyped
  values into the shared payload. Values are modelled by \<open>jsval\<close>: \<open>JNum\<close> carries the
  integer-valued numbers the controllers write (status codes), \<open>JObj\<close> is a plain object
  as an association list in insertion order, \<open>JArr\<close> an array.
\<close>

datatype jsval =
    JUndefined
  | JNull
  | JBool bool
  | JNum int
  | JStr string
  | JArr "jsval list"
  | JObj "(string \<times> jsval) list"

text \<open>Truthiness, as used by \<open>!x\<close>, \<open>x ? a : b\<close> and \<open>x || y\<close>.\<close>

fun truthy :: "jsval \<Rightarrow> bool" where
  "truthy JUndefined = False"
| "truthy JNull = False"
| "truthy (JBool b) = b"
| "truthy (JNum n) = (n \<noteq> 0)"
| "truthy (JStr s) = (s \<noteq> [])"
| "truthy (JArr xs) = True"
| "truthy (JObj kvs) = True"

text \<open>Property read \<open>v.k\<close> on a value that is an object, else \<open>undefined\<close>.\<close>

fun js_get :: "jsval \<Rightarrow> string \<Rightarrow> jsval" where
  "js_get (JObj kvs) k = (case map_of kvs k of None \<Rightarrow> JUndefined | Some v \<Rightarrow> v)"
| "js_get v k = JUndefined"

subsection \<open>The lodash predicates the controllers call\<close>

definition lodash_isUndefined :: "jsval \<Rightarrow> bool" where
  "lodash_isUndefined v = (v = JUndefined)"

definition lodash_isNull :: "jsval \<Rightarrow> bool" where
  "lodash_isNull v = (v = JNull)"

fun lodash_isString :: "jsval \<Rightarrow> bool" where
  "lodash_isString (JStr s) = True"
| "lodash_isString v = False"

text \<open>
  \<open>_.isEmpty\<close>: \<open>null\<close> and \<open>undefined\<close> are empty, strings and arrays are empty when
  their length is 0, an object when it has no own key, and every number and boolean is
  empty.
\<close>

fun lodash_isEmpty :: "jsval \<Rightarrow> bool" where
  "lodash_isEmpty JUndefined = True"
| "lodash_isEmpty JNull = True"
| "lodash_isEmpty (JBool b) = True"
| "lodash_isEmpty (JNum n) = True"
| "lodash_isEmpty (JStr s) = (s = [])"
| "lodash_isEmpty (JArr xs) = (xs = [])"
| "lodash_isEmpty (JObj kvs) = (kvs = [])"

text \<open>
  \<open>_.isElement\<close> holds of DOM elements only: object-like, \<open>nodeType === 1\<close> and not a
  plain object. No \<open>jsval\<close> is one (\<open>JObj\<close> is a plain object).
\<close>

fun lodash_isElement :: "jsval \<Rightarrow> bool" where
  "lodash_isElement JUndefined = False"
| "lodash_isElement JNull = False"
| "lodash_isElement (JBool b) = False"
| "lodash_isElement (JNum n) = False"
| "lodash_isElement (JStr s) = False"
| "lodash_isElement (JArr xs) = False"
| "lodash_isElement (JObj kvs) = False"

subsection \<open>Property keys\<close>

text \<open>
  \<open>obj[v]\<close> converts \<open>v\<close> to a string first. \<open>payload[responseKey]\<close> with a missing
  \<open>responseKey\<close> therefore writes the property named \<open>undefined\<close>.
\<close>

fun nat_digits :: "nat \<Rightarrow> string" where
  "nat_digits n =
     (if n < 10 then [char_of (48 + n)]
      else nat_digits (n div 10) @ [char_of (48 + n mod 10)])"

definition int_to_string :: "int \<Rightarrow> string" where
  "int_to_string i = (if i < 0 then CHR ''-'' # nat_digits (nat (- i)) else nat_digits (nat i))"

fun join_with :: "string \<Rightarrow> string list \<Rightarrow> string" where
  "join_with sep [] = []"
| "join_with sep [x] = x"
| "join_with sep (x # y # ys) = x @ sep @ join_with sep (y # ys)"

fun js_to_string :: "jsval \<Rightarrow> string" where
  "js_to_string JUndefined = ''undefined''"
| "js_to_string JNull = ''null''"
| "js_to_string (JBool b) = (if b then ''true'' else ''false'')"
| "js_to_string (JNum n) = int_to_string n"
| "js_to_string (JStr s) = s"
| "js_to_string (JArr xs) =
     join_with '',''
       (map (\<lambda>x. if x = JUndefined \<or> x = JNull then [] else js_to_string x) xs)"
| "js_to_string (JObj kvs) = ''[object Object]''"

section \<open>The process environment, the filesystem and the libraries\<close>

text \<open>
  A filesystem entry is a readable regular file with its contents, a regular file whose
  read fails (no permission), or a directory.
\<close>

datatype fsnode = RegularFile string | UnreadableFile | Directory

text \<open>
  Everything outside the repository that a controller calls is a field of \<open>world\<close>:
  \<open>process.env\<close>, the filesystem behind \<open>fs-extra\<close>, the URL parser of Node,
  \<open>jsonwebtoken\<close>, \<open>pem-jwk\<close> and the Google OAuth client library.

  \<^item> \<open>url_parses s\<close>: \<open>new URL(s)\<close> does not throw.
  \<^item> \<open>jwt_verify token secret algorithms\<close>: the two arguments \<open>(error, jwtPayload)\<close>
    that \<open>JWT.verify\<close> passes to its callback.
  \<^item> \<open>jwt_sign payload key expiresIn algorithm\<close>: the token \<open>JWT.sign\<close> returns, or
    the value it throws (\<open>Inl\<close>).
  \<^item> \<open>pem2jwk pem extras\<close>: the JWK, or the value thrown.
  \<^item> \<open>generateAuthUrl clientOptions opts\<close>: the URL built by an \<open>OAuth2Client\<close>
    constructed from \<open>clientOptions\<close>.
  \<^item> \<open>getAccessToken credentials\<close>: what \<open>OAuth2Client.getAccessToken\<close> resolves
    to (or rejects with, \<open>Inl\<close>) for a client holding \<open>credentials\<close>, and the
    credentials the library leaves on the client.
  \<^item> \<open>axios_get url\<close>: the response object of \<open>axios.get\<close>, or the rejection value.
\<close>

datatype keymat = KeyValue jsval | KeyBuffer string

record jwks_options =
  jwksUri :: jsval
  cache :: bool
  cacheMaxEntries :: nat
  cacheMaxAge :: nat

datatype verify_secret = SecretValue jsval | KeyProvider jwks_options

record world =
  env :: "string \<rightharpoonup> string"
  fs :: "string \<rightharpoonup> fsnode"
  url_parses :: "string \<Rightarrow> bool"
  jwt_verify :: "jsval \<Rightarrow> verify_secret \<Rightarrow> jsval list \<Rightarrow> jsval \<times> jsval"
  jwt_sign :: "jsval \<Rightarrow> keymat \<Rightarrow> jsval \<Rightarrow> jsval \<Rightarrow> jsval + string"
  pem2jwk :: "string \<Rightarrow> jsval \<Rightarrow> jsval + jsval"
  generateAuthUrl :: "jsval \<Rightarrow> jsval \<Rightarrow> jsval"
  getAccessToken :: "jsval \<Rightarrow> (jsval + jsval) \<times> jsval"
  axios_get :: "string \<Rightarrow> jsval + jsval"

text \<open>\<open>process.env[k]\<close>: the variable's string, or \<open>undefined\<close>.\<close>

definition process_env :: "world \<Rightarrow> jsval \<Rightarrow> jsval" where
  "process_env w k =
     (case env w (js_to_string k) of None \<Rightarrow> JUndefined | Some s \<Rightarrow> JStr s)"

subsection \<open>fs-extra\<close>

text \<open>
  \<open>fse.exists(p)\<close> resolves to \<open>false\<close> for an argument that is not a path (Node's
  \<open>fs.exists\<close> swallows the validation error) and for a path with no entry.
  \<open>fse.stat\<close> and \<open>fse.readFile\<close> reject where there is nothing to stat or read.
\<close>

fun fse_exists :: "world \<Rightarrow> jsval \<Rightarrow> bool" where
  "fse_exists w (JStr p) = (fs w p \<noteq> None)"
| "fse_exists w v = False"

definition fs_error :: "string \<Rightarrow> jsval" where
  "fs_error code = JObj [(''code'', JStr code)]"

fun fse_stat :: "world \<Rightarrow> jsval \<Rightarrow> jsval + fsnode" where
  "fse_stat w (JStr p) =
     (case fs w p of None \<Rightarrow> Inl (fs_error ''ENOENT'') | Some n \<Rightarrow> Inr n)"
| "fse_stat w v = Inl (fs_error ''ERR_INVALID_ARG_TYPE'')"

fun isFile :: "fsnode \<Rightarrow> bool" where
  "isFile (RegularFile c) = True"
| "isFile UnreadableFile = True"
| "isFile Directory = False"

fun fse_readFile :: "world \<Rightarrow> jsval \<Rightarrow> jsval + string" where
  "fse_readFile w (JStr p) =
     (case fs w p of
        None \<Rightarrow> Inl (fs_error ''ENOENT'')
      | Some (RegularFile c) \<Rightarrow> Inr c
      | Some UnreadableFile \<Rightarrow> Inl (fs_error ''EACCES'')
      | Some Directory \<Rightarrow> Inl (fs_error ''EISDIR''))"
| "fse_readFile w v = Inl (fs_error ''ERR_INVALID_ARG_TYPE'')"

text \<open>The filesystem calls a helper made, in order.\<close>

datatype fs_op = FsExists jsval | FsStat jsval | FsReadFile jsval

section \<open>Key Resolver: helpers/fetchSecretORprivateKey\<close>

text \<open>
  The result is the list of filesystem calls made and either the rejection value
  (\<open>Inl\<close>) or the pair of key material and effective algorithm.
\<close>

definition fallbackSecret :: "world \<Rightarrow> jsval \<Rightarrow> keymat \<times> jsval" where
  "fallbackSecret w algorithm =
     (KeyValue (process_env w (JStr ''ECOFLOW_SYS_TOKEN_SALT'')),
      if algorithm = JStr ''RS256'' then JStr ''HS256''
      else if algorithm = JStr ''RS384'' then JStr ''HS384''
      else JStr ''HS256'')"

definition fetchSecretORprivateKey ::
  "world \<Rightarrow> jsval \<Rightarrow> jsval \<Rightarrow> fs_op list \<times> (jsval + keymat \<times> jsval)" where
  "fetchSecretORprivateKey w algorithm key =
     (if algorithm = JStr ''HS256'' \<or> algorithm = JStr ''HS384''
      then ([], Inr (KeyValue key, algorithm))
      else if fse_exists w key
      then (case fse_stat w key of
              Inl e \<Rightarrow> ([FsExists key, FsStat key], Inl e)
            | Inr st \<Rightarrow>
                if isFile st
                then (case fse_readFile w key of
                        Inl e \<Rightarrow> ([FsExists key, FsStat key, FsReadFile key], Inl e)
                      | Inr buf \<Rightarrow>
                          ([FsExists key, FsStat key, FsReadFile key],
                           Inr (KeyBuffer buf, algorithm)))
                else ([FsExists key, FsStat key], Inr (fallbackSecret w algorithm)))
      else ([FsExists key], Inr (fallbackSecret w algorithm)))"

text \<open>A key reference names an existing regular file.\<close>

fun names_regular_file :: "world \<Rightarrow> jsval \<Rightarrow> bool" where
  "names_regular_file w (JStr p) =
     (case fs w p of None \<Rightarrow> False | Some n \<Rightarrow> isFile n)"
| "names_regular_file w v = False"

section \<open>Remote Key Fetcher: helpers/stringIsAValidUrl, helpers/fetchJWKPublicKey\<close>

definition stringIsAValidUrl :: "world \<Rightarrow> jsval \<Rightarrow> bool" where
  "stringIsAValidUrl w url = url_parses w (js_to_string url)"

text \<open>
  The function returned for a valid URL is a closure over the JWKS client; it is
  represented by \<open>KeyProvider\<close> with the options the client was built from.
\<close>

definition fetchJWKPublicKey :: "world \<Rightarrow> jsval \<Rightarrow> verify_secret" where
  "fetchJWKPublicKey w url =
     (if \<not> stringIsAValidUrl w url then SecretValue (JStr [])
      else KeyProvider
             \<lparr>jwksUri = url, cache = True, cacheMaxEntries = 50,
              cacheMaxAge = 60 * 60 * 1000\<rparr>)"

section \<open>The pipeline context\<close>

text \<open>
  \<open>authorization\<close> is \<open>request.headers.authorization\<close> (a string or absent), \<open>inputs\<close>
  is \<open>None\<close> when the step has no inputs (\<open>undefined\<close>), \<open>status\<close> is \<open>None\<close> until a
  controller assigns it, \<open>next_calls\<close> counts the calls of the continuation and
  \<open>logged\<close> collects what went to \<open>ecoFlow.log.error\<close>. The continuation belongs to
  the host; a call of it is taken to return.
\<close>

record request =
  authorization :: "string option"
  query :: "string \<rightharpoonup> jsval"

record eco_context =
  payload :: "string \<rightharpoonup> jsval"
  inputs :: "(string \<times> jsval) list option"
  request :: request
  status :: "nat option"
  next_calls :: nat
  logged :: "jsval list"

definition input_get :: "(string \<times> jsval) list \<Rightarrow> string \<Rightarrow> jsval" where
  "input_get inp k = (case map_of inp k of None \<Rightarrow> JUndefined | Some v \<Rightarrow> v)"

definition payload_get :: "eco_context \<Rightarrow> jsval \<Rightarrow> jsval" where
  "payload_get ctx k =
     (case payload ctx (js_to_string k) of None \<Rightarrow> JUndefined | Some v \<Rightarrow> v)"

definition payload_set :: "eco_context \<Rightarrow> jsval \<Rightarrow> jsval \<Rightarrow> eco_context" where
  "payload_set ctx k v = ctx\<lparr>payload := (payload ctx)(js_to_string k \<mapsto> v)\<rparr>"

definition query_get :: "eco_context \<Rightarrow> jsval \<Rightarrow> jsval" where
  "query_get ctx k =
     (case query (request ctx) (js_to_string k) of None \<Rightarrow> JUndefined | Some v \<Rightarrow> v)"

definition call_next :: "eco_context \<Rightarrow> eco_context" where
  "call_next ctx = ctx\<lparr>next_calls := Suc (next_calls ctx)\<rparr>"

text \<open>A controller either returns, or throws a value to the host.\<close>

datatype outcome = Returned eco_context | Threw jsval eco_context

fun final_context :: "outcome \<Rightarrow> eco_context" where
  "final_context (Returned c) = c"
| "final_context (Threw e c) = c"

section \<open>Token Verifier: controllers/authenticateTokenController\<close>

text \<open>\<open>s.split(" ")\<close>, and \<open>arr[i]\<close> on the array of strings it returns.\<close>

fun split_on :: "char \<Rightarrow> string \<Rightarrow> string list" where
  "split_on c [] = [[]]"
| "split_on c (x # xs) =
     (if x = c then [] # split_on c xs
      else (case split_on c xs of [] \<Rightarrow> [[x]] | y # ys \<Rightarrow> (x # y) # ys))"

definition array_at :: "string list \<Rightarrow> nat \<Rightarrow> jsval" where
  "array_at xs i = (if i < length xs then JStr (xs ! i) else JUndefined)"

text \<open>
  The secret handed to \<open>JWT.verify\<close>: the literal or environment value when the selector
  is \<open>secret\<close>, else what the Remote Key Fetcher returns for the configured URL.
\<close>

definition verifySecret :: "world \<Rightarrow> (string \<times> jsval) list \<Rightarrow> verify_secret" where
  "verifySecret w inp =
     (let secretORprivateKeySelector = input_get inp ''secretORprivateKeySelector'';
          secretORpublicKey = input_get inp ''secretORpublicKey'';
          fromEnvironmentVariable = input_get inp ''fromEnvironmentVariable''
      in if secretORprivateKeySelector = JStr ''secret''
         then SecretValue (if truthy fromEnvironmentVariable
                           then process_env w secretORpublicKey
                           else secretORpublicKey)
         else fetchJWKPublicKey w (if truthy fromEnvironmentVariable
                                   then process_env w secretORpublicKey
                                   else secretORpublicKey))"

text \<open>
  The part of the controller after the token has been extracted: call \<open>JWT.verify\<close>
  restricted to \<open>[algorithm]\<close> and act on the callback's arguments \<open>(error, jwtPayload)\<close>.
  A value thrown inside the promise rejects it as an \<open>error\<close> passed to the callback does.
\<close>

definition verifyRawToken ::
  "world \<Rightarrow> eco_context \<Rightarrow> (string \<times> jsval) list \<Rightarrow> jsval \<Rightarrow> eco_context" where
  "verifyRawToken w ctx inp rawToken =
     (let responseKey = input_get inp ''responseKey'';
          algorithm = input_get inp ''algorithm'';
          secret = verifySecret w inp;
          (error, jwtPayload) = jwt_verify w rawToken secret [algorithm]
      in if truthy error
         then (payload_set ctx responseKey (js_get error ''message''))\<lparr>status := Some 401\<rparr>
         else call_next (payload_set ctx responseKey jwtPayload))"

definition authenticateTokenController :: "world \<Rightarrow> eco_context \<Rightarrow> eco_context" where
  "authenticateTokenController w ctx =
     (case inputs ctx of
        None \<Rightarrow> ctx
      | Some inp \<Rightarrow>
          (let responseKey = input_get inp ''responseKey''
           in case authorization (request ctx) of
                None \<Rightarrow>
                  (payload_set ctx responseKey (JStr ''Invalid authorization''))
                    \<lparr>status := Some 401\<rparr>
              | Some hdr \<Rightarrow>
                  if lodash_isEmpty (JStr hdr)
                  then (payload_set ctx responseKey (JStr ''Invalid authorization''))
                         \<lparr>status := Some 401\<rparr>
                  else (let rawToken = array_at (split_on CHR '' '' hdr) 1
                        in if lodash_isEmpty rawToken \<or> \<not> lodash_isString rawToken
                           then (payload_set ctx responseKey (JStr ''Invalid authorization''))
                                  \<lparr>status := Some 401\<rparr>
                           else verifyRawToken w ctx inp rawToken)))"

text \<open>
  The invocation reaches \<open>JWT.verify\<close> with the token \<open>tok\<close>: the inputs are defined and
  the second segment of the header is the non-empty string \<open>tok\<close>.
\<close>

definition reaches_verification ::
  "eco_context \<Rightarrow> (string \<times> jsval) list \<Rightarrow> string \<Rightarrow> bool" where
  "reaches_verification ctx inp tok =
     (inputs ctx = Some inp \<and> tok \<noteq> []
      \<and> (case authorization (request ctx) of
            None \<Rightarrow> False
          | Some hdr \<Rightarrow> array_at (split_on CHR '' '' hdr) 1 = JStr tok))"

text \<open>
  What \<open>jsonwebtoken\<close> promises for the option \<open>algorithms\<close>: a token whose header names
  an algorithm outside the list is reported to the callback as an error. \<open>header_alg\<close>
  reads the algorithm a token was signed under.
\<close>

definition rejects_other_algorithms :: "world \<Rightarrow> (jsval \<Rightarrow> jsval) \<Rightarrow> bool" where
  "rejects_other_algorithms w header_alg =
     (\<forall>token secret algorithms.
        header_alg token \<notin> set algorithms \<longrightarrow>
        truthy (fst (jwt_verify w token secret algorithms)))"

text \<open>The same invocation on a request that carries the header \<open>hdr\<close>.\<close>

definition with_authorization :: "eco_context \<Rightarrow> string \<Rightarrow> eco_context" where
  "with_authorization ctx hdr = ctx\<lparr>request := (request ctx)\<lparr>authorization := Some hdr\<rparr>\<rparr>"

definition invalidAuthorization :: "eco_context \<Rightarrow> (string \<times> jsval) list \<Rightarrow> eco_context" where
  "invalidAuthorization ctx inp =
     (payload_set ctx (input_get inp ''responseKey'') (JStr ''Invalid authorization''))
       \<lparr>status := Some 401\<rparr>"

section \<open>Token Signer: controllers/signJWTController\<close>

text \<open>
  \<open>payload[payloadKey] || {}\<close>, and the key reference handed to the Key Resolver:
  \<open>process.env[secretORprivateKey] || ""\<close> when the environment flag is set, else the
  input itself.
\<close>

definition signerPayload :: "eco_context \<Rightarrow> (string \<times> jsval) list \<Rightarrow> jsval" where
  "signerPayload ctx inp =
     (if truthy (payload_get ctx (input_get inp ''payloadKey''))
      then payload_get ctx (input_get inp ''payloadKey'') else JObj [])"

definition signerKeyRef :: "world \<Rightarrow> (string \<times> jsval) list \<Rightarrow> jsval" where
  "signerKeyRef w inp =
     (if truthy (input_get inp ''secretORprivateKeyFromEnvironment'')
      then (if truthy (process_env w (input_get inp ''secretORprivateKey''))
            then process_env w (input_get inp ''secretORprivateKey'') else JStr [])
      else input_get inp ''secretORprivateKey'')"

text \<open>
  There is no \<open>try\<close> in this controller: a rejection of the Key Resolver and a throw of
  \<open>JWT.sign\<close> leave it as they are, before the payload is written.
\<close>

definition signJWTController :: "world \<Rightarrow> eco_context \<Rightarrow> outcome" where
  "signJWTController w ctx =
     (case inputs ctx of
        None \<Rightarrow> Returned ctx
      | Some inp \<Rightarrow>
          (let responseKey = input_get inp ''responseKey'';
               expiresIn = input_get inp ''expiresIn'';
               algorithm = input_get inp ''algorithm'';
               jwtPayload = signerPayload ctx inp
           in case snd (fetchSecretORprivateKey w algorithm (signerKeyRef w inp)) of
                Inl e \<Rightarrow> Threw e ctx
              | Inr (secret, signAlgorithm) \<Rightarrow>
                  (case jwt_sign w jwtPayload secret expiresIn signAlgorithm of
                     Inl e \<Rightarrow> Threw e ctx
                   | Inr token \<Rightarrow>
                       Returned (call_next (payload_set ctx responseKey (JStr token))))))"

section \<open>JWKS Publisher: controllers/jwtJWKSController\<close>

definition secretPath :: "world \<Rightarrow> (string \<times> jsval) list \<Rightarrow> jsval" where
  "secretPath w inp =
     (if truthy (input_get inp ''fromEnvironmentVariable'')
      then process_env w (input_get inp ''publicKey'')
      else input_get inp ''publicKey'')"

definition internalError :: "eco_context \<Rightarrow> jsval \<Rightarrow> jsval \<Rightarrow> eco_context" where
  "internalError ctx responseKey error =
     (payload_set (ctx\<lparr>logged := logged ctx @ [error]\<rparr>) responseKey (JStr ''error occurred''))
       \<lparr>status := Some 500\<rparr>"

definition jwtJWKSController :: "world \<Rightarrow> eco_context \<Rightarrow> eco_context" where
  "jwtJWKSController w ctx =
     (case inputs ctx of
        None \<Rightarrow> ctx
      | Some inp \<Rightarrow>
          (let responseKey = input_get inp ''responseKey''
           in if \<not> fse_exists w (secretPath w inp)
              then (payload_set ctx responseKey (JStr ''key not found''))\<lparr>status := Some 404\<rparr>
              else (case fse_readFile w (secretPath w inp) of
                      Inl e \<Rightarrow> internalError ctx responseKey e
                    | Inr secret \<Rightarrow>
                        (case pem2jwk w secret (JObj [(''use'', JStr ''sig'')]) of
                           Inl e \<Rightarrow> internalError ctx responseKey e
                         | Inr jwk \<Rightarrow>
                             call_next (payload_set ctx responseKey (JArr [jwk]))))))"

section \<open>Auth-URL Builder: controllers/generateGoogleAuthUrl\<close>

definition from_env :: "world \<Rightarrow> jsval \<Rightarrow> jsval \<Rightarrow> jsval" where
  "from_env w flag v = (if truthy flag then process_env w v else v)"

definition generateGoogleAuthUrl :: "world \<Rightarrow> eco_context \<Rightarrow> eco_context" where
  "generateGoogleAuthUrl w ctx =
     (case inputs ctx of
        None \<Rightarrow> ctx
      | Some inp \<Rightarrow>
          (let oAuthClientID =
                 from_env w (input_get inp ''clientIdFromEnv'') (input_get inp ''clientId'');
               oAuthClientSecret =
                 from_env w (input_get inp ''clientSecretFromEnv'')
                   (input_get inp ''clientSecret'');
               oAuthRedirectUri =
                 from_env w (input_get inp ''redirectUriFromEnv'')
                   (input_get inp ''redirectUri'')
           in if \<not> truthy oAuthClientID \<or> \<not> truthy oAuthClientSecret
                 \<or> \<not> truthy oAuthRedirectUri \<or> lodash_isElement oAuthClientID
                 \<or> lodash_isEmpty oAuthClientSecret \<or> lodash_isEmpty oAuthRedirectUri
              then ctx\<lparr>payload := (payload ctx)(''msg'' \<mapsto>
                     JObj [(''error'', JBool True),
                           (''message'', JStr ''Missing required Google OAuth client credentials''),
                           (''statusCode'', JNum 400),
                           (''missing'',
                            JObj [(''clientId'', JBool (lodash_isElement oAuthClientID)),
                                  (''clientSecret'', JBool (lodash_isElement oAuthClientSecret)),
                                  (''redirectUri'', JBool (lodash_isEmpty oAuthRedirectUri))])])\<rparr>
              else (let access_type = input_get inp ''access_type'';
                        prompt = input_get inp ''prompt'';
                        scope = input_get inp ''scope'';
                        state = input_get inp ''state'';
                        login_hint = input_get inp ''login_hint''
                    in if \<not> truthy access_type \<or> \<not> truthy prompt
                          \<or> lodash_isEmpty access_type \<or> lodash_isEmpty prompt
                       then ctx\<lparr>payload := (payload ctx)(''msg'' \<mapsto>
                              JObj [(''error'', JBool True),
                                    (''message'', JStr ''Missing required Google OAuth parameters''),
                                    (''statusCode'', JNum 400),
                                    (''missing'',
                                     JObj [(''access_type'', JBool (lodash_isEmpty access_type)),
                                           (''prompt'', JBool (lodash_isEmpty prompt))])])\<rparr>
                       else call_next (ctx\<lparr>payload := (payload ctx)(''msg'' \<mapsto>
                              JObj [(''authURL'',
                                     generateAuthUrl w
                                       (JObj [(''clientId'', oAuthClientID),
                                              (''clientSecret'', oAuthClientSecret),
                                              (''redirectUri'', oAuthRedirectUri)])
                                       (JObj [(''access_type'', access_type),
                                              (''scope'', scope),
                                              (''prompt'', prompt),
                                              (''state'', state),
                                              (''login_hint'', login_hint)]))])\<rparr>))))"

section \<open>User-Details Fetcher: controllers/getUserDetails\<close>

text \<open>
  The OAuth clients are objects held by the host's configuration manager and shared by
  every invocation. \<open>moduleConfigs\<close> is what
  \<open>ecoFlow.moduleConfigs.selectPackage("ecoflow-authentication")\<close> returns (\<open>None\<close>:
  \<open>undefined\<close>); a lookup that returns \<open>null\<close>, \<open>undefined\<close> or an empty config is
  \<open>None\<close>, and so is a \<open>configs\<close> field that is \<open>null\<close> or empty.
\<close>

record oauth_client =
  client_options :: jsval
  credentials :: jsval

record module_config =
  label :: string
  configs :: "oauth_client option"

type_synonym config_manager = "jsval \<rightharpoonup> module_config"

definition payload_msg :: "eco_context \<Rightarrow> jsval \<Rightarrow> eco_context" where
  "payload_msg ctx v = ctx\<lparr>payload := (payload ctx)(''msg'' \<mapsto> v)\<rparr>"

definition userDetailsFailed :: "eco_context \<Rightarrow> jsval \<Rightarrow> eco_context" where
  "userDetailsFailed ctx error =
     payload_msg ctx
       (JObj [(''error'', JBool True),
              (''message'', JStr ''Failed to get user details.''),
              (''rawError'', error)])"

definition store_client ::
  "config_manager \<Rightarrow> jsval \<Rightarrow> module_config \<Rightarrow> oauth_client \<Rightarrow> config_manager option" where
  "store_client mgr client config c = Some (mgr(client \<mapsto> config\<lparr>configs := Some c\<rparr>))"

text \<open>
  The \<open>try\<close> block, for the client \<open>oc\<close> found under the name \<open>client\<close>. The result
  is the configuration manager with the client as the controller leaves it, and the
  context.
\<close>

definition fetchUserInfo ::
  "world \<Rightarrow> config_manager \<Rightarrow> jsval \<Rightarrow> module_config \<Rightarrow> oauth_client \<Rightarrow> jsval \<Rightarrow>
   eco_context \<Rightarrow> config_manager option \<times> eco_context" where
  "fetchUserInfo w mgr client config oc userRefreshToken ctx =
     (let oc1 = oc\<lparr>credentials := JObj [(''refresh_token'', userRefreshToken)]\<rparr>;
          (access_token, creds2) = getAccessToken w (credentials oc1);
          oc2 = oc1\<lparr>credentials := creds2\<rparr>
      in case access_token of
           Inl error \<Rightarrow> (store_client mgr client config oc2, userDetailsFailed ctx error)
         | Inr tok \<Rightarrow>
             if lodash_isUndefined (js_get tok ''token'') \<or> lodash_isNull (js_get tok ''token'')
             then (store_client mgr client config oc2,
                   userDetailsFailed ctx (JStr ''Failed to get access token.''))
             else (case axios_get w
                          (''https://www.googleapis.com/oauth2/v2/userinfo?alt=json&access_token=''
                           @ js_to_string (js_get tok ''token'')) of
                     Inl error \<Rightarrow>
                       (store_client mgr client config oc2, userDetailsFailed ctx error)
                   | Inr response \<Rightarrow>
                       (store_client mgr client config (oc2\<lparr>credentials := JObj []\<rparr>),
                        call_next
                          (payload_msg ctx
                             (JObj [(''success'', JBool True),
                                    (''user'', js_get response ''data'')])))))"

definition getUserDetails ::
  "world \<Rightarrow> config_manager option \<Rightarrow> eco_context \<Rightarrow> config_manager option \<times> eco_context" where
  "getUserDetails w moduleConfigs ctx =
     (case inputs ctx of
        None \<Rightarrow>
          (moduleConfigs,
           payload_msg ctx (JObj [(''error'', JBool True), (''message'', JStr ''Missing inputs.'')]))
      | Some inp \<Rightarrow>
          if inp = []
          then (moduleConfigs,
                payload_msg ctx
                  (JObj [(''error'', JBool True), (''message'', JStr ''Missing inputs.'')]))
          else (let client = input_get inp ''client'';
                    refreshToken = input_get inp ''refreshToken'';
                    passByQuery = input_get inp ''passByQuery'';
                    queryKey = input_get inp ''queryKey''
                in if \<not> truthy client \<or> lodash_isEmpty client
                   then (moduleConfigs,
                         payload_msg ctx
                           (JObj [(''error'', JBool True),
                                  (''message'', JStr ''Missing client.''),
                                  (''status'',
                                   JObj [(''client'', JBool (lodash_isUndefined client))])]))
                   else (let userRefreshToken =
                               (if truthy passByQuery
                                then (if truthy queryKey then query_get ctx queryKey
                                      else query_get ctx (JStr ''token''))
                                else refreshToken)
                         in case moduleConfigs of
                              None \<Rightarrow>
                                (moduleConfigs,
                                 payload_msg ctx
                                   (JObj [(''error'', JBool True),
                                          (''message'',
                                           JStr ''Missing configs manager for ecoflow-authentication package'')]))
                            | Some mgr \<Rightarrow>
                                (case mgr client of
                                   None \<Rightarrow>
                                     (moduleConfigs,
                                      payload_msg ctx
                                        (JObj [(''error'', JBool True),
                                               (''message'',
                                                JStr ''Missing config for ecoflow-authentication package'')]))
                                 | Some config \<Rightarrow>
                                     (case configs config of
                                        None \<Rightarrow>
                                          (moduleConfigs,
                                           payload_msg ctx
                                             (JObj [(''error'', JBool True),
                                                    (''message'', JStr ''Missing OAuth client'')]))
                                      | Some oc \<Rightarrow>
                                          fetchUserInfo w mgr client config oc
                                            userRefreshToken ctx)))))"

text \<open>The credentials held by the client registered under a name.\<close>

definition stored_credentials :: "config_manager option \<Rightarrow> jsval \<Rightarrow> jsval option" where
  "stored_credentials moduleConfigs client =
     (case moduleConfigs of
        None \<Rightarrow> None
      | Some mgr \<Rightarrow>
          (case mgr client of None \<Rightarrow> None | Some config \<Rightarrow> map_option credentials (configs config)))"

section \<open>A concrete world and concrete invocations\<close>

text \<open>
  A small instance of \<open>world\<close> on which the controllers can be run: toy tokens of the
  form \<open>alg.body\<close>, one secret, one key file, one OAuth refresh token that the provider
  accepts.
\<close>

definition demo_header_alg :: "jsval \<Rightarrow> jsval" where
  "demo_header_alg token =
     (case token of JStr t \<Rightarrow> JStr (takeWhile (\<lambda>c. c \<noteq> CHR ''.'') t) | _ \<Rightarrow> JUndefined)"

definition demo_verify :: "jsval \<Rightarrow> verify_secret \<Rightarrow> jsval list \<Rightarrow> jsval \<times> jsval" where
  "demo_verify token secret algorithms =
     (if demo_header_alg token \<notin> set algorithms
      then (JObj [(''name'', JStr ''JsonWebTokenError''), (''message'', JStr ''invalid algorithm'')],
            JUndefined)
      else if secret \<noteq> SecretValue (JStr ''s3cr3t'')
      then (JObj [(''name'', JStr ''JsonWebTokenError''), (''message'', JStr ''invalid signature'')],
            JUndefined)
      else (JNull, JObj [(''sub'', JStr ''u1'')]))"

definition demo_sign :: "jsval \<Rightarrow> keymat \<Rightarrow> jsval \<Rightarrow> jsval \<Rightarrow> jsval + string" where
  "demo_sign jwtPayload key expiresIn algorithm =
     (if key = KeyValue (JStr []) \<or> key = KeyValue JUndefined
      then Inl (JObj [(''message'', JStr ''secretOrPrivateKey must have a value'')])
      else Inr (js_to_string algorithm @ ''.signed''))"

definition demo_getAccessToken :: "jsval \<Rightarrow> (jsval + jsval) \<times> jsval" where
  "demo_getAccessToken creds =
     (if js_get creds ''refresh_token'' = JStr ''fresh''
      then (Inr (JObj [(''token'', JStr ''at1'')]),
            JObj [(''access_token'', JStr ''at1''), (''refresh_token'', JStr ''fresh'')])
      else (Inl (JObj [(''message'', JStr ''invalid_grant'')]), creds))"

definition demo_world :: world where
  "demo_world =
     \<lparr>env = [''ECOFLOW_SYS_TOKEN_SALT'' \<mapsto> ''salt''],
      fs = [''/keys/private.pem'' \<mapsto> RegularFile ''PEM'', ''/keys'' \<mapsto> Directory],
      url_parses = (\<lambda>s. take 8 s = ''https://''),
      jwt_verify = demo_verify,
      jwt_sign = demo_sign,
      pem2jwk = (\<lambda>pem extras. Inr (JObj [(''kty'', JStr ''RSA''), (''use'', js_get extras ''use'')])),
      generateAuthUrl = (\<lambda>clientOptions opts. JStr ''https://accounts.example/auth''),
      getAccessToken = demo_getAccessToken,
      axios_get = (\<lambda>url. Inr (JObj [(''data'', JObj [(''email'', JStr ''u1@example.org'')])]))\<rparr>"

definition demo_context :: "(string \<times> jsval) list option \<Rightarrow> string option \<Rightarrow> eco_context" where
  "demo_context inp hdr =
     \<lparr>payload = Map.empty, inputs = inp,
      request = \<lparr>authorization = hdr, query = Map.empty\<rparr>,
      status = None, next_calls = 0, logged = []\<rparr>"

definition demo_verifier_inputs :: "(string \<times> jsval) list" where
  "demo_verifier_inputs =
     [(''responseKey'', JStr ''msg''), (''algorithm'', JStr ''HS256''),
      (''secretORprivateKeySelector'', JStr ''secret''),
      (''secretORpublicKey'', JStr ''s3cr3t'')]"

definition demo_signer_inputs :: "(string \<times> jsval) list" where
  "demo_signer_inputs =
     [(''payloadKey'', JStr ''msg''), (''responseKey'', JStr ''msg''),
      (''expiresIn'', JStr ''1hr''), (''algorithm'', JStr ''HS256''),
      (''secretORprivateKey'', JStr ''s3cr3t'')]"

definition demo_signer_env_inputs :: "(string \<times> jsval) list" where
  "demo_signer_env_inputs =
     [(''payloadKey'', JStr ''msg''), (''responseKey'', JStr ''msg''),
      (''expiresIn'', JStr ''1hr''), (''algorithm'', JStr ''HS256''),
      (''secretORprivateKey'', JStr ''ECOFLOW_USER_JWT_SECRET''),
      (''secretORprivateKeyFromEnvironment'', JBool True)]"

definition demo_signer_file_inputs :: "(string \<times> jsval) list" where
  "demo_signer_file_inputs =
     [(''payloadKey'', JStr ''msg''), (''responseKey'', JStr ''msg''),
      (''expiresIn'', JStr ''1hr''), (''algorithm'', JStr ''RS256''),
      (''secretORprivateKey'', JStr ''/keys/locked.pem'')]"

definition demo_manager :: config_manager where
  "demo_manager =
     [JStr ''google'' \<mapsto>
        \<lparr>label = ''Google'',
         configs = Some \<lparr>client_options = JObj [(''clientId'', JStr ''id1'')],
                         credentials = JObj []\<rparr>\<rparr>]"

definition demo_user_inputs :: "string \<Rightarrow> (string \<times> jsval) list" where
  "demo_user_inputs refreshToken =
     [(''client'', JStr ''google''), (''refreshToken'', JStr refreshToken)]"

definition demo_authurl_inputs :: "(string \<times> jsval) list" where
  "demo_authurl_inputs =
     [(''clientSecret'', JStr ''shh''), (''redirectUri'', JStr ''https://app.example/cb''),
      (''access_type'', JStr ''offline''), (''prompt'', JStr ''consent'')]"

section \<open>Properties of the Key Resolver\<close>

lemma fse_stat_exists:
  "fse_exists w key \<Longrightarrow> \<exists>n. fse_stat w key = Inr n \<and> isFile n = names_regular_file w key"
  by (cases key) auto

text \<open>
  Claim C1. For an asymmetric algorithm (\<open>RS256\<close> or \<open>RS384\<close>) and a key reference that
  does not name an existing regular file, \<open>fetchSecretORprivateKey\<close> resolves to the value
  of the environment variable \<open>ECOFLOW_SYS_TOKEN_SALT\<close> paired with the downgraded symmetric
  algorithm: \<open>RS256\<close> gives \<open>HS256\<close>, \<open>RS384\<close> gives \<open>HS384\<close>.
\<close>

theorem resolver_fallback:
  assumes "algorithm = JStr ''RS256'' \<or> algorithm = JStr ''RS384''"
      and "\<not> names_regular_file w key"
  shows "snd (fetchSecretORprivateKey w algorithm key) =
           Inr (KeyValue (process_env w (JStr ''ECOFLOW_SYS_TOKEN_SALT'')),
                if algorithm = JStr ''RS256'' then JStr ''HS256'' else JStr ''HS384'')"
proof (cases "fse_exists w key")
  case True
  then obtain n where "fse_stat w key = Inr n" "isFile n = names_regular_file w key"
    using fse_stat_exists by blast
  with assms True show ?thesis
    by (auto simp: fetchSecretORprivateKey_def fallbackSecret_def)
next
  case False
  with assms show ?thesis
    by (auto simp: fetchSecretORprivateKey_def fallbackSecret_def)
qed

text \<open>The path \<open>/keys\<close> is a directory of the concrete world: \<open>RS384\<close> falls back.\<close>

theorem resolver_fallback_witness:
  "\<not> names_regular_file demo_world (JStr ''/keys'')
   \<and> snd (fetchSecretORprivateKey demo_world (JStr ''RS384'') (JStr ''/keys'')) =
       Inr (KeyValue (JStr ''salt''), JStr ''HS384'')"
  using resolver_fallback [of "JStr ''RS384''" demo_world "JStr ''/keys''"]
  by (simp add: demo_world_def process_env_def)

text \<open>
  Claim C2. For a symmetric algorithm (\<open>HS256\<close> or \<open>HS384\<close>) and any key,
  \<open>fetchSecretORprivateKey\<close> resolves to the key unchanged paired with the same algorithm,
  and makes no filesystem call (the list of calls is empty).
\<close>

theorem resolver_symmetric:
  assumes "algorithm = JStr ''HS256'' \<or> algorithm = JStr ''HS384''"
  shows "fetchSecretORprivateKey w algorithm key = ([], Inr (KeyValue key, algorithm))"
  using assms by (auto simp: fetchSecretORprivateKey_def)

text \<open>Even a key that names an existing key file is returned as it is, unread.\<close>

theorem resolver_symmetric_witness:
  "fetchSecretORprivateKey demo_world (JStr ''HS384'') (JStr ''/keys/private.pem'') =
     ([], Inr (KeyValue (JStr ''/keys/private.pem''), JStr ''HS384''))"
  using resolver_symmetric [of "JStr ''HS384''" demo_world "JStr ''/keys/private.pem''"]
  by simp

section \<open>Properties of the Remote Key Fetcher\<close>

text \<open>
  Claim C9. For every input string, \<open>fetchJWKPublicKey\<close> returns the empty string exactly
  when \<open>new URL\<close> rejects the string; when the URL parses it returns a key provider (a
  function, here the closure over the JWKS client built for that URL), and the empty
  string is the only string it ever returns.
\<close>

theorem fetcher_sentinel:
  "(fetchJWKPublicKey w (JStr url) = SecretValue (JStr []) \<longleftrightarrow> \<not> url_parses w url)
   \<and> (url_parses w url \<longrightarrow>
        (\<exists>opts. fetchJWKPublicKey w (JStr url) = KeyProvider opts \<and> jwksUri opts = JStr url))
   \<and> (\<forall>v. fetchJWKPublicKey w (JStr url) = SecretValue v \<longrightarrow> v = JStr [])"
  by (simp add: fetchJWKPublicKey_def stringIsAValidUrl_def)

theorem fetcher_sentinel_witness:
  "fetchJWKPublicKey demo_world (JStr ''not a url'') = SecretValue (JStr [])
   \<and> fetchJWKPublicKey demo_world (JStr ''https://idp.example/jwks.json'') =
       KeyProvider \<lparr>jwksUri = JStr ''https://idp.example/jwks.json'', cache = True,
                    cacheMaxEntries = 50, cacheMaxAge = 3600000\<rparr>"
  using fetcher_sentinel [of demo_world "''not a url''"]
        fetcher_sentinel [of demo_world "''https://idp.example/jwks.json''"]
  by (auto simp: demo_world_def fetchJWKPublicKey_def stringIsAValidUrl_def)

section \<open>Properties of the Token Verifier\<close>

text \<open>
  Claim C3, as the code has it. On a request whose \<open>Authorization\<close> header is missing or
  empty, an invocation with defined inputs writes \<open>Invalid authorization\<close> into
  \<open>payload[responseKey]\<close>, sets the status to 401 and does not call \<open>next()\<close>. An
  invocation whose inputs are \<open>undefined\<close> returns at the first guard of the controller:
  nothing is written and no status is set.
\<close>

theorem verifier_missing_header:
  assumes "authorization (request ctx) = None \<or> authorization (request ctx) = Some []"
  shows "(\<forall>inp. inputs ctx = Some inp \<longrightarrow>
            authenticateTokenController w ctx =
              (payload_set ctx (input_get inp ''responseKey'') (JStr ''Invalid authorization''))
                \<lparr>status := Some 401\<rparr>
            \<and> status (authenticateTokenController w ctx) = Some 401
            \<and> payload (authenticateTokenController w ctx)
                 (js_to_string (input_get inp ''responseKey''))
                = Some (JStr ''Invalid authorization'')
            \<and> next_calls (authenticateTokenController w ctx) = next_calls ctx)
         \<and> (inputs ctx = None \<longrightarrow> authenticateTokenController w ctx = ctx)"
  using assms
  by (auto simp: authenticateTokenController_def payload_set_def)

theorem verifier_missing_header_witness:
  "status (authenticateTokenController demo_world
             (demo_context (Some demo_verifier_inputs) None)) = Some 401
   \<and> payload (authenticateTokenController demo_world
                (demo_context (Some demo_verifier_inputs) None)) ''msg''
       = Some (JStr ''Invalid authorization'')
   \<and> next_calls (authenticateTokenController demo_world
                   (demo_context (Some demo_verifier_inputs) None)) = 0
   \<and> authenticateTokenController demo_world (demo_context None (Some []))
       = demo_context None (Some [])"
  using verifier_missing_header [of "demo_context (Some demo_verifier_inputs) None" demo_world]
        verifier_missing_header [of "demo_context None (Some [])" demo_world]
  by (simp add: demo_context_def demo_verifier_inputs_def input_get_def payload_set_def)

text \<open>
  Claim C3 as it is written fails for an invocation without inputs: the request has no
  \<open>Authorization\<close> header, yet the status is not 401 and the payload stays empty.
\<close>

theorem verifier_missing_header_counterexample:
  "authorization (request (demo_context None None)) = None
   \<and> status (authenticateTokenController demo_world (demo_context None None)) \<noteq> Some 401
   \<and> payload (authenticateTokenController demo_world (demo_context None None)) = Map.empty"
  by (simp add: authenticateTokenController_def demo_context_def)

lemma verifier_reaches_verification:
  assumes "reaches_verification ctx inp tok"
  shows "authenticateTokenController w ctx = verifyRawToken w ctx inp (JStr tok)"
proof -
  from assms obtain hdr where h: "authorization (request ctx) = Some hdr"
    "array_at (split_on CHR '' '' hdr) 1 = JStr tok" "tok \<noteq> []" "inputs ctx = Some inp"
    by (auto simp: reaches_verification_def split: option.splits)
  then have "hdr \<noteq> []" by (auto simp: array_at_def)
  with h show ?thesis by (simp add: authenticateTokenController_def)
qed

lemma verifier_next_only_after_verification:
  assumes "next_calls (authenticateTokenController w ctx) \<noteq> next_calls ctx"
  shows "\<exists>inp tok. reaches_verification ctx inp tok
           \<and> \<not> truthy (fst (jwt_verify w (JStr tok) (verifySecret w inp)
                               [input_get inp ''algorithm'']))"
proof -
  from assms obtain inp where inp: "inputs ctx = Some inp"
    by (cases "inputs ctx") (auto simp: authenticateTokenController_def)
  from assms inp obtain hdr where hdr: "authorization (request ctx) = Some hdr"
    by (cases "authorization (request ctx)")
       (auto simp: authenticateTokenController_def payload_set_def)
  from assms inp hdr obtain tok
    where tok: "array_at (split_on CHR '' '' hdr) 1 = JStr tok" "tok \<noteq> []"
    by (cases "array_at (split_on CHR '' '' hdr) 1")
       (auto simp: authenticateTokenController_def payload_set_def Let_def split: if_splits)
  from inp hdr tok have r: "reaches_verification ctx inp tok"
    by (simp add: reaches_verification_def)
  have "authenticateTokenController w ctx = verifyRawToken w ctx inp (JStr tok)"
    using verifier_reaches_verification [OF r] .
  with assms
  have "\<not> truthy (fst (jwt_verify w (JStr tok) (verifySecret w inp)
                          [input_get inp ''algorithm'']))"
    by (auto simp: verifyRawToken_def payload_set_def Let_def split: prod.splits if_splits)
  with r show ?thesis by blast
qed

text \<open>
  Claim C4. Let the invocation reach \<open>JWT.verify\<close>, called with the extracted token, the
  resolved secret and the one-element list \<open>[algorithm]\<close>, and let \<open>(error, jwtPayload)\<close>
  be what the callback receives.
  \<^item> When verification fails (\<open>error\<close> is set) the controller writes \<open>error.message\<close> into
    \<open>payload[responseKey]\<close>, sets the status to 401 and does not call \<open>next()\<close>.
  \<^item> In particular, for a library that honours \<open>algorithms\<close>, a token signed under an
    algorithm other than the configured one has this outcome.
  \<^item> When verification succeeds the decoded claims are written and \<open>next()\<close> is called.
  \<^item> Whenever \<open>next()\<close> has been called, the invocation reached \<open>JWT.verify\<close> under the
    configured algorithm and verification succeeded.
\<close>

theorem verifier_failure:
  "(reaches_verification ctx inp tok
      \<and> jwt_verify w (JStr tok) (verifySecret w inp) [input_get inp ''algorithm'']
          = (error, jwtPayload) \<longrightarrow>
      (truthy error \<longrightarrow>
         authenticateTokenController w ctx =
           (payload_set ctx (input_get inp ''responseKey'') (js_get error ''message''))
             \<lparr>status := Some 401\<rparr>
         \<and> next_calls (authenticateTokenController w ctx) = next_calls ctx)
      \<and> (rejects_other_algorithms w header_alg
            \<and> header_alg (JStr tok) \<noteq> input_get inp ''algorithm'' \<longrightarrow>
          authenticateTokenController w ctx =
            (payload_set ctx (input_get inp ''responseKey'') (js_get error ''message''))
              \<lparr>status := Some 401\<rparr>)
      \<and> (\<not> truthy error \<longrightarrow>
            authenticateTokenController w ctx =
              call_next (payload_set ctx (input_get inp ''responseKey'') jwtPayload)))
   \<and> (next_calls (authenticateTokenController w ctx) \<noteq> next_calls ctx \<longrightarrow>
        (\<exists>inp' tok'. reaches_verification ctx inp' tok'
           \<and> \<not> truthy (fst (jwt_verify w (JStr tok') (verifySecret w inp')
                               [input_get inp' ''algorithm'']))))"
proof (intro conjI impI)
  assume "next_calls (authenticateTokenController w ctx) \<noteq> next_calls ctx"
  then show "\<exists>inp' tok'. reaches_verification ctx inp' tok'
           \<and> \<not> truthy (fst (jwt_verify w (JStr tok') (verifySecret w inp')
                               [input_get inp' ''algorithm'']))"
    by (rule verifier_next_only_after_verification)
next
  assume h: "reaches_verification ctx inp tok
      \<and> jwt_verify w (JStr tok) (verifySecret w inp) [input_get inp ''algorithm'']
          = (error, jwtPayload)"
  then have eq: "authenticateTokenController w ctx = verifyRawToken w ctx inp (JStr tok)"
    using verifier_reaches_verification by blast
  {
    assume "truthy error"
    with h show "authenticateTokenController w ctx =
           (payload_set ctx (input_get inp ''responseKey'') (js_get error ''message''))
             \<lparr>status := Some 401\<rparr>"
      by (simp add: eq verifyRawToken_def)
    with h show "next_calls (authenticateTokenController w ctx) = next_calls ctx"
      by (simp add: payload_set_def)
  }
  {
    assume "\<not> truthy error"
    with h show "authenticateTokenController w ctx =
              call_next (payload_set ctx (input_get inp ''responseKey'') jwtPayload)"
      by (simp add: eq verifyRawToken_def)
  }
  {
    assume c: "rejects_other_algorithms w header_alg
            \<and> header_alg (JStr tok) \<noteq> input_get inp ''algorithm''"
    then have "header_alg (JStr tok) \<notin> set [input_get inp ''algorithm'']" by simp
    with c
    have "truthy (fst (jwt_verify w (JStr tok) (verifySecret w inp)
                         [input_get inp ''algorithm'']))"
      unfolding rejects_other_algorithms_def by blast
    with h have "truthy error" by simp
    with h show "authenticateTokenController w ctx =
           (payload_set ctx (input_get inp ''responseKey'') (js_get error ''message''))
             \<lparr>status := Some 401\<rparr>"
      by (simp add: eq verifyRawToken_def)
  }
qed

lemma demo_rejects: "rejects_other_algorithms demo_world demo_header_alg"
  by (simp add: rejects_other_algorithms_def demo_world_def demo_verify_def)

text \<open>
  A token signed under \<open>RS256\<close> presented to a verifier configured for \<open>HS256\<close>: the
  library reports \<open>invalid algorithm\<close>, the controller answers 401 with that message.
\<close>

theorem verifier_failure_witness:
  "rejects_other_algorithms demo_world demo_header_alg
   \<and> reaches_verification
        (demo_context (Some demo_verifier_inputs) (Some ''Bearer RS256.body''))
        demo_verifier_inputs ''RS256.body''
   \<and> demo_header_alg (JStr ''RS256.body'') \<noteq> input_get demo_verifier_inputs ''algorithm''
   \<and> authenticateTokenController demo_world
        (demo_context (Some demo_verifier_inputs) (Some ''Bearer RS256.body'')) =
      (demo_context (Some demo_verifier_inputs) (Some ''Bearer RS256.body''))
        \<lparr>payload := [''msg'' \<mapsto> JStr ''invalid algorithm''], status := Some 401\<rparr>"
proof -
  let ?ctx = "demo_context (Some demo_verifier_inputs) (Some ''Bearer RS256.body'')"
  have r: "reaches_verification ?ctx demo_verifier_inputs ''RS256.body''"
    by (simp add: reaches_verification_def demo_context_def array_at_def)
  have a: "demo_header_alg (JStr ''RS256.body'') \<noteq> input_get demo_verifier_inputs ''algorithm''"
    by (simp add: demo_header_alg_def demo_verifier_inputs_def input_get_def)
  have v: "jwt_verify demo_world (JStr ''RS256.body'')
             (verifySecret demo_world demo_verifier_inputs)
             [input_get demo_verifier_inputs ''algorithm'']
           = (JObj [(''name'', JStr ''JsonWebTokenError''),
                    (''message'', JStr ''invalid algorithm'')],
              JUndefined)"
    by (simp add: demo_world_def demo_verify_def demo_header_alg_def demo_verifier_inputs_def
                  input_get_def)
  from verifier_failure
         [of ?ctx demo_verifier_inputs "''RS256.body''" demo_world _ _ demo_header_alg]
       r a v demo_rejects
  have "authenticateTokenController demo_world ?ctx =
          (payload_set ?ctx (input_get demo_verifier_inputs ''responseKey'')
             (js_get (JObj [(''name'', JStr ''JsonWebTokenError''),
                            (''message'', JStr ''invalid algorithm'')]) ''message''))
            \<lparr>status := Some 401\<rparr>"
    by blast
  then have "authenticateTokenController demo_world ?ctx =
      ?ctx\<lparr>payload := [''msg'' \<mapsto> JStr ''invalid algorithm''], status := Some 401\<rparr>"
    by (simp add: payload_set_def demo_verifier_inputs_def input_get_def demo_context_def)
  with r a demo_rejects show ?thesis by blast
qed

subsection \<open>Token extraction\<close>

lemma split_on_not_Nil: "split_on c s \<noteq> []"
  by (induction s) (auto split: list.splits)

lemma split_on_no_separator: "c \<notin> set s \<Longrightarrow> split_on c s = [s]"
  by (induction s) auto

lemma split_on_first_separator:
  "c \<notin> set s \<Longrightarrow> split_on c (s @ c # rest) = s # split_on c rest"
  by (induction s) auto

lemma hd_split_on: "hd (split_on c s) = takeWhile (\<lambda>x. x \<noteq> c) s"
  by (induction s) (auto simp: split_on_not_Nil split: list.splits)

lemma second_segment:
  assumes "CHR '' '' \<notin> set scheme"
  shows "array_at (split_on CHR '' '' (scheme @ CHR '' '' # rest)) 1
           = JStr (takeWhile (\<lambda>x. x \<noteq> CHR '' '') rest)"
proof -
  have "split_on CHR '' '' rest \<noteq> []" by (rule split_on_not_Nil)
  then have "array_at (scheme # split_on CHR '' '' rest) 1 = JStr (hd (split_on CHR '' '' rest))"
    by (cases "split_on CHR '' '' rest") (auto simp: array_at_def)
  with assms show ?thesis by (simp add: split_on_first_separator hd_split_on)
qed

lemma verifier_on_scheme:
  assumes "CHR '' '' \<notin> set scheme"
  shows "authenticateTokenController w (with_authorization ctx (scheme @ CHR '' '' # rest)) =
           (case inputs ctx of
              None \<Rightarrow> with_authorization ctx (scheme @ CHR '' '' # rest)
            | Some inp \<Rightarrow>
                if takeWhile (\<lambda>x. x \<noteq> CHR '' '') rest = []
                then invalidAuthorization (with_authorization ctx (scheme @ CHR '' '' # rest)) inp
                else verifyRawToken w (with_authorization ctx (scheme @ CHR '' '' # rest)) inp
                       (JStr (takeWhile (\<lambda>x. x \<noteq> CHR '' '') rest)))"
  using second_segment [OF assms]
  by (simp add: authenticateTokenController_def with_authorization_def invalidAuthorization_def
           split: option.splits)

lemma verifyRawToken_request:
  "verifyRawToken w (ctx\<lparr>request := r\<rparr>) inp t = (verifyRawToken w ctx inp t)\<lparr>request := r\<rparr>"
  by (simp add: verifyRawToken_def payload_set_def call_next_def Let_def split: prod.splits)

text \<open>
  Claim C10, as the code has it. The header is \<open>scheme\<close>, a space, and \<open>rest\<close>; the
  second space-separated segment is \<open>rest\<close> up to its first space.
  \<^item> Whatever the scheme word, the invocation ends as it does for \<open>Bearer\<close> followed by
    the same \<open>rest\<close> (the contexts differ in the stored header only): the scheme is
    never checked.
  \<^item> With defined inputs and a non-empty second segment, that segment is the token
    handed to verification.
  \<^item> With defined inputs, an empty second segment and a non-empty header without any
    space both give the 401 \<open>Invalid authorization\<close> outcome.
  \<^item> With \<open>undefined\<close> inputs the controller returns the context as it received it.
\<close>

theorem verifier_ignores_scheme:
  "(CHR '' '' \<notin> set scheme \<longrightarrow>
      authenticateTokenController w (with_authorization ctx (scheme @ '' '' @ rest)) =
        with_authorization
          (authenticateTokenController w (with_authorization ctx (''Bearer '' @ rest)))
          (scheme @ '' '' @ rest))
   \<and> (CHR '' '' \<notin> set scheme \<and> inputs ctx = Some inp
        \<and> takeWhile (\<lambda>x. x \<noteq> CHR '' '') rest \<noteq> [] \<longrightarrow>
      authenticateTokenController w (with_authorization ctx (scheme @ '' '' @ rest)) =
        verifyRawToken w (with_authorization ctx (scheme @ '' '' @ rest)) inp
          (JStr (takeWhile (\<lambda>x. x \<noteq> CHR '' '') rest)))
   \<and> (CHR '' '' \<notin> set scheme \<and> inputs ctx = Some inp
        \<and> takeWhile (\<lambda>x. x \<noteq> CHR '' '') rest = [] \<longrightarrow>
      authenticateTokenController w (with_authorization ctx (scheme @ '' '' @ rest)) =
        (payload_set (with_authorization ctx (scheme @ '' '' @ rest))
           (input_get inp ''responseKey'') (JStr ''Invalid authorization''))
          \<lparr>status := Some 401\<rparr>)
   \<and> (inputs ctx = Some inp \<and> hdr \<noteq> [] \<and> CHR '' '' \<notin> set hdr \<longrightarrow>
      authenticateTokenController w (with_authorization ctx hdr) =
        (payload_set (with_authorization ctx hdr) (input_get inp ''responseKey'')
           (JStr ''Invalid authorization''))\<lparr>status := Some 401\<rparr>)
   \<and> (inputs ctx = None \<longrightarrow>
      authenticateTokenController w (with_authorization ctx hdr) = with_authorization ctx hdr)"
proof (intro conjI impI)
  assume s: "CHR '' '' \<notin> set scheme"
  have b: "CHR '' '' \<notin> set ''Bearer''" by simp
  have "authenticateTokenController w (with_authorization ctx (scheme @ CHR '' '' # rest)) =
        with_authorization
          (authenticateTokenController w (with_authorization ctx (''Bearer'' @ CHR '' '' # rest)))
          (scheme @ CHR '' '' # rest)"
    unfolding verifier_on_scheme [OF s] verifier_on_scheme [OF b]
    by (cases "inputs ctx")
       (simp_all add: with_authorization_def invalidAuthorization_def payload_set_def
                      verifyRawToken_request)
  then show "authenticateTokenController w (with_authorization ctx (scheme @ '' '' @ rest)) =
        with_authorization
          (authenticateTokenController w (with_authorization ctx (''Bearer '' @ rest)))
          (scheme @ '' '' @ rest)"
    by simp
next
  assume "CHR '' '' \<notin> set scheme \<and> inputs ctx = Some inp
        \<and> takeWhile (\<lambda>x. x \<noteq> CHR '' '') rest \<noteq> []"
  then show "authenticateTokenController w (with_authorization ctx (scheme @ '' '' @ rest)) =
        verifyRawToken w (with_authorization ctx (scheme @ '' '' @ rest)) inp
          (JStr (takeWhile (\<lambda>x. x \<noteq> CHR '' '') rest))"
    using verifier_on_scheme [of scheme w ctx rest] by simp
next
  assume "CHR '' '' \<notin> set scheme \<and> inputs ctx = Some inp
        \<and> takeWhile (\<lambda>x. x \<noteq> CHR '' '') rest = []"
  then show "authenticateTokenController w (with_authorization ctx (scheme @ '' '' @ rest)) =
        (payload_set (with_authorization ctx (scheme @ '' '' @ rest))
           (input_get inp ''responseKey'') (JStr ''Invalid authorization''))
          \<lparr>status := Some 401\<rparr>"
    using verifier_on_scheme [of scheme w ctx rest] by (simp add: invalidAuthorization_def)
next
  assume h: "inputs ctx = Some inp \<and> hdr \<noteq> [] \<and> CHR '' '' \<notin> set hdr"
  then have "array_at (split_on CHR '' '' hdr) 1 = JUndefined"
    by (simp add: split_on_no_separator array_at_def)
  with h show "authenticateTokenController w (with_authorization ctx hdr) =
        (payload_set (with_authorization ctx hdr) (input_get inp ''responseKey'')
           (JStr ''Invalid authorization''))\<lparr>status := Some 401\<rparr>"
    by (simp add: authenticateTokenController_def with_authorization_def)
next
  assume "inputs ctx = None"
  then show "authenticateTokenController w (with_authorization ctx hdr)
               = with_authorization ctx hdr"
    by (simp add: authenticateTokenController_def with_authorization_def)
qed

text \<open>
  The header \<open>Basic HS256.body\<close> is verified like a bearer token and accepted; the
  header \<open>Basic\<close> alone is answered with 401.
\<close>

theorem verifier_ignores_scheme_witness:
  "authenticateTokenController demo_world
     (with_authorization (demo_context (Some demo_verifier_inputs) None) ''Basic HS256.body'')
   = (demo_context (Some demo_verifier_inputs) (Some ''Basic HS256.body''))
       \<lparr>payload := [''msg'' \<mapsto> JObj [(''sub'', JStr ''u1'')]], next_calls := 1\<rparr>
   \<and> authenticateTokenController demo_world
       (with_authorization (demo_context (Some demo_verifier_inputs) None) ''Basic'')
     = (demo_context (Some demo_verifier_inputs) (Some ''Basic''))
         \<lparr>payload := [''msg'' \<mapsto> JStr ''Invalid authorization''], status := Some 401\<rparr>"
proof -
  let ?ctx = "demo_context (Some demo_verifier_inputs) None"
  have i: "inputs ?ctx = Some demo_verifier_inputs" by (simp add: demo_context_def)
  note t = verifier_ignores_scheme
             [of "''Basic''" demo_world ?ctx "''HS256.body''" demo_verifier_inputs "''Basic''"]
  have 1: "authenticateTokenController demo_world (with_authorization ?ctx ''Basic HS256.body'')
           = verifyRawToken demo_world (with_authorization ?ctx ''Basic HS256.body'')
               demo_verifier_inputs (JStr ''HS256.body'')"
    using t [THEN conjunct2, THEN conjunct1] i by simp
  have 2: "authenticateTokenController demo_world (with_authorization ?ctx ''Basic'')
           = (payload_set (with_authorization ?ctx ''Basic'')
                (input_get demo_verifier_inputs ''responseKey'') (JStr ''Invalid authorization''))
               \<lparr>status := Some 401\<rparr>"
    using t [THEN conjunct2, THEN conjunct2, THEN conjunct2, THEN conjunct1] i by simp
  have 3: "verifyRawToken demo_world (with_authorization ?ctx ''Basic HS256.body'')
             demo_verifier_inputs (JStr ''HS256.body'')
           = (demo_context (Some demo_verifier_inputs) (Some ''Basic HS256.body''))
               \<lparr>payload := [''msg'' \<mapsto> JObj [(''sub'', JStr ''u1'')]], next_calls := 1\<rparr>"
    by (simp add: verifyRawToken_def verifySecret_def payload_set_def call_next_def Let_def
                  with_authorization_def demo_world_def demo_verify_def demo_header_alg_def
                  demo_context_def demo_verifier_inputs_def input_get_def)
  have 4: "(payload_set (with_authorization ?ctx ''Basic'')
                (input_get demo_verifier_inputs ''responseKey'') (JStr ''Invalid authorization''))
               \<lparr>status := Some 401\<rparr>
           = (demo_context (Some demo_verifier_inputs) (Some ''Basic''))
               \<lparr>payload := [''msg'' \<mapsto> JStr ''Invalid authorization''], status := Some 401\<rparr>"
    by (simp add: payload_set_def with_authorization_def demo_context_def
                  demo_verifier_inputs_def input_get_def)
  from 1 2 3 4 show ?thesis by simp
qed

text \<open>
  Claim C10 as it is written fails where the code does not reach verification although
  the header is a non-empty string. In \<open>Bearer\<close>, two spaces, \<open>HS256.body\<close> the second
  segment is the empty string: the controller answers \<open>Invalid authorization\<close> itself,
  where verification of that segment would have reported the library's message. And
  for an invocation without inputs the header \<open>Basic\<close>, which has no space, does not
  give status 401.
\<close>

theorem verifier_ignores_scheme_counterexample:
  "array_at (split_on CHR '' '' ''Bearer  HS256.body'') 1 = JStr []
   \<and> authenticateTokenController demo_world
        (demo_context (Some demo_verifier_inputs) (Some ''Bearer  HS256.body''))
      = (demo_context (Some demo_verifier_inputs) (Some ''Bearer  HS256.body''))
          \<lparr>payload := [''msg'' \<mapsto> JStr ''Invalid authorization''], status := Some 401\<rparr>
   \<and> verifyRawToken demo_world
        (demo_context (Some demo_verifier_inputs) (Some ''Bearer  HS256.body''))
        demo_verifier_inputs (JStr [])
      = (demo_context (Some demo_verifier_inputs) (Some ''Bearer  HS256.body''))
          \<lparr>payload := [''msg'' \<mapsto> JStr ''invalid algorithm''], status := Some 401\<rparr>
   \<and> status (authenticateTokenController demo_world (demo_context None (Some ''Basic'')))
       \<noteq> Some 401"
  by (simp add: authenticateTokenController_def verifyRawToken_def verifySecret_def
                payload_set_def array_at_def Let_def
                demo_world_def demo_verify_def demo_header_alg_def
                demo_context_def demo_verifier_inputs_def input_get_def)

section \<open>Properties of the Token Signer\<close>

text \<open>
  Claim C5, as the code has it. For an invocation with defined inputs in which the Key
  Resolver resolves and \<open>JWT.sign\<close> returns a token, that token is written into
  \<open>payload[responseKey]\<close> and \<open>next()\<close> is called once. The signer has no error branch
  of its own: it never sets a status, an invocation without inputs returns the context
  as it is, and a value thrown by the Key Resolver or by \<open>JWT.sign\<close> reaches the host
  unchanged, with nothing written and \<open>next()\<close> not called. Conversely, whatever the
  controller throws is such a value.
\<close>

theorem signer_no_error_branch:
  "(inputs ctx = Some inp
      \<and> snd (fetchSecretORprivateKey w (input_get inp ''algorithm'') (signerKeyRef w inp))
          = Inr (secret, signAlgorithm)
      \<and> jwt_sign w (signerPayload ctx inp) secret (input_get inp ''expiresIn'') signAlgorithm
          = Inr token \<longrightarrow>
      signJWTController w ctx =
        Returned (call_next (payload_set ctx (input_get inp ''responseKey'') (JStr token))))
   \<and> (inputs ctx = Some inp
      \<and> snd (fetchSecretORprivateKey w (input_get inp ''algorithm'') (signerKeyRef w inp))
          = Inl thrown \<longrightarrow>
      signJWTController w ctx = Threw thrown ctx)
   \<and> (inputs ctx = Some inp
      \<and> snd (fetchSecretORprivateKey w (input_get inp ''algorithm'') (signerKeyRef w inp))
          = Inr (secret, signAlgorithm)
      \<and> jwt_sign w (signerPayload ctx inp) secret (input_get inp ''expiresIn'') signAlgorithm
          = Inl thrown \<longrightarrow>
      signJWTController w ctx = Threw thrown ctx)
   \<and> (inputs ctx = None \<longrightarrow> signJWTController w ctx = Returned ctx)
   \<and> (\<forall>e c. signJWTController w ctx = Threw e c \<longrightarrow>
         c = ctx
         \<and> (\<exists>inp'. inputs ctx = Some inp'
               \<and> (snd (fetchSecretORprivateKey w (input_get inp' ''algorithm'')
                          (signerKeyRef w inp')) = Inl e
                    \<or> (\<exists>secret' alg'.
                          snd (fetchSecretORprivateKey w (input_get inp' ''algorithm'')
                                 (signerKeyRef w inp')) = Inr (secret', alg')
                          \<and> jwt_sign w (signerPayload ctx inp') secret'
                                (input_get inp' ''expiresIn'') alg' = Inl e))))
   \<and> status (final_context (signJWTController w ctx)) = status ctx"
  by (auto simp: signJWTController_def call_next_def payload_set_def Let_def
           split: option.splits sum.splits prod.splits)

text \<open>
  Three invocations: signing \<open>{}\<close> with the literal secret under \<open>HS256\<close>; a secret
  named by an environment variable that is not set, which \<open>JWT.sign\<close> refuses; and an
  \<open>RS256\<close> key file that cannot be read, where the rejection of the Key Resolver is
  what the host receives.
\<close>

theorem signer_no_error_branch_witness:
  "signJWTController demo_world (demo_context (Some demo_signer_inputs) None) =
     Returned ((demo_context (Some demo_signer_inputs) None)
                 \<lparr>payload := [''msg'' \<mapsto> JStr ''HS256.signed''], next_calls := 1\<rparr>)
   \<and> signJWTController demo_world (demo_context (Some demo_signer_env_inputs) None) =
       Threw (JObj [(''message'', JStr ''secretOrPrivateKey must have a value'')])
         (demo_context (Some demo_signer_env_inputs) None)
   \<and> signJWTController (demo_world\<lparr>fs := [''/keys/locked.pem'' \<mapsto> UnreadableFile]\<rparr>)
         (demo_context (Some demo_signer_file_inputs) None) =
       Threw (fs_error ''EACCES'') (demo_context (Some demo_signer_file_inputs) None)"
proof -
  let ?ctx = "demo_context (Some demo_signer_inputs) None"
  have k: "signerKeyRef demo_world demo_signer_inputs = JStr ''s3cr3t''"
    by (simp add: signerKeyRef_def demo_signer_inputs_def input_get_def)
  have r: "snd (fetchSecretORprivateKey demo_world (input_get demo_signer_inputs ''algorithm'')
                  (signerKeyRef demo_world demo_signer_inputs))
           = Inr (KeyValue (JStr ''s3cr3t''), JStr ''HS256'')"
    unfolding k by (simp add: fetchSecretORprivateKey_def demo_signer_inputs_def input_get_def)
  have s: "jwt_sign demo_world (signerPayload ?ctx demo_signer_inputs)
             (KeyValue (JStr ''s3cr3t''))
             (input_get demo_signer_inputs ''expiresIn'') (JStr ''HS256'') = Inr ''HS256.signed''"
    by (simp add: demo_world_def demo_sign_def)
  have i: "inputs ?ctx = Some demo_signer_inputs" by (simp add: demo_context_def)
  from signer_no_error_branch [of ?ctx demo_signer_inputs demo_world] i r s
  have "signJWTController demo_world ?ctx =
        Returned (call_next (payload_set ?ctx (input_get demo_signer_inputs ''responseKey'')
                               (JStr ''HS256.signed'')))"
    by blast
  then have 1: "signJWTController demo_world ?ctx =
     Returned (?ctx\<lparr>payload := [''msg'' \<mapsto> JStr ''HS256.signed''], next_calls := 1\<rparr>)"
    by (simp add: call_next_def payload_set_def demo_context_def demo_signer_inputs_def
                  input_get_def)
  let ?ctxe = "demo_context (Some demo_signer_env_inputs) None"
  have ke: "signerKeyRef demo_world demo_signer_env_inputs = JStr []"
    by (simp add: signerKeyRef_def demo_signer_env_inputs_def input_get_def process_env_def
                  demo_world_def)
  have re: "snd (fetchSecretORprivateKey demo_world
                   (input_get demo_signer_env_inputs ''algorithm'')
                   (signerKeyRef demo_world demo_signer_env_inputs))
            = Inr (KeyValue (JStr []), JStr ''HS256'')"
    unfolding ke
    by (simp add: fetchSecretORprivateKey_def demo_signer_env_inputs_def input_get_def)
  have se: "jwt_sign demo_world (signerPayload ?ctxe demo_signer_env_inputs)
              (KeyValue (JStr []))
              (input_get demo_signer_env_inputs ''expiresIn'') (JStr ''HS256'')
            = Inl (JObj [(''message'', JStr ''secretOrPrivateKey must have a value'')])"
    by (simp add: demo_world_def demo_sign_def)
  have ie: "inputs ?ctxe = Some demo_signer_env_inputs" by (simp add: demo_context_def)
  from signer_no_error_branch [of ?ctxe demo_signer_env_inputs demo_world] ie re se
  have 2: "signJWTController demo_world ?ctxe =
             Threw (JObj [(''message'', JStr ''secretOrPrivateKey must have a value'')]) ?ctxe"
    by blast
  let ?wf = "demo_world\<lparr>fs := [''/keys/locked.pem'' \<mapsto> UnreadableFile]\<rparr>"
  let ?ctxf = "demo_context (Some demo_signer_file_inputs) None"
  have kf: "signerKeyRef ?wf demo_signer_file_inputs = JStr ''/keys/locked.pem''"
    by (simp add: signerKeyRef_def demo_signer_file_inputs_def input_get_def)
  have rf: "snd (fetchSecretORprivateKey ?wf (input_get demo_signer_file_inputs ''algorithm'')
                   (signerKeyRef ?wf demo_signer_file_inputs))
            = Inl (fs_error ''EACCES'')"
    unfolding kf
    by (simp add: fetchSecretORprivateKey_def demo_signer_file_inputs_def input_get_def)
  have "inputs ?ctxf = Some demo_signer_file_inputs" by (simp add: demo_context_def)
  with signer_no_error_branch [of ?ctxf demo_signer_file_inputs ?wf] rf
  have 3: "signJWTController ?wf ?ctxf = Threw (fs_error ''EACCES'') ?ctxf"
    by blast
  from 1 2 3 show ?thesis by blast
qed

text \<open>
  Claim C5 as it is written fails when signing throws. The secret is to come from the
  environment variable \<open>ECOFLOW_USER_JWT_SECRET\<close>, which is not set: the key reference
  becomes the empty string, \<open>JWT.sign\<close> refuses it, and the controller ends with that
  exception: no token in the payload, no call of \<open>next()\<close>. An invocation without
  inputs returns at the first guard, again with nothing written and no call of
  \<open>next()\<close>.
\<close>

theorem signer_no_error_branch_counterexample:
  "signJWTController demo_world (demo_context (Some demo_signer_env_inputs) None) =
     Threw (JObj [(''message'', JStr ''secretOrPrivateKey must have a value'')])
       (demo_context (Some demo_signer_env_inputs) None)
   \<and> payload (demo_context (Some demo_signer_env_inputs) None) ''msg'' = None
   \<and> next_calls (demo_context (Some demo_signer_env_inputs) None) = 0
   \<and> signJWTController demo_world (demo_context None None) = Returned (demo_context None None)
   \<and> next_calls (demo_context None None) = 0"
  by (simp add: signJWTController_def signerKeyRef_def signerPayload_def payload_get_def
                fetchSecretORprivateKey_def demo_world_def demo_sign_def process_env_def
                demo_context_def demo_signer_env_inputs_def input_get_def)

section \<open>Properties of the JWKS Publisher\<close>

text \<open>
  Claim C8, as the code has it. The controller tests the public-key path resolved from
  the inputs (the literal \<open>publicKey\<close>, or the environment variable it names) with
  \<open>fse.exists\<close>, not for being a file.
  \<^item> When the path does not exist, the controller writes \<open>key not found\<close> into
    \<open>payload[responseKey]\<close>, sets the status to 404 and does not call \<open>next()\<close>.
  \<^item> When the path exists and names no regular file (it names a directory), reading it
    fails: the controller logs the error, writes \<open>error occurred\<close> into
    \<open>payload[responseKey]\<close>, sets the status to 500 and does not call \<open>next()\<close>.
\<close>

theorem jwks_key_not_found:
  assumes "inputs ctx = Some inp"
  shows "(\<not> fse_exists w (secretPath w inp) \<longrightarrow>
            jwtJWKSController w ctx =
              (payload_set ctx (input_get inp ''responseKey'') (JStr ''key not found''))
                \<lparr>status := Some 404\<rparr>
            \<and> payload (jwtJWKSController w ctx) (js_to_string (input_get inp ''responseKey''))
                = Some (JStr ''key not found'')
            \<and> status (jwtJWKSController w ctx) = Some 404
            \<and> next_calls (jwtJWKSController w ctx) = next_calls ctx)
         \<and> (fse_exists w (secretPath w inp) \<and> \<not> names_regular_file w (secretPath w inp) \<longrightarrow>
            jwtJWKSController w ctx =
              internalError ctx (input_get inp ''responseKey'') (fs_error ''EISDIR'')
            \<and> payload (jwtJWKSController w ctx) (js_to_string (input_get inp ''responseKey''))
                = Some (JStr ''error occurred'')
            \<and> status (jwtJWKSController w ctx) = Some 500
            \<and> next_calls (jwtJWKSController w ctx) = next_calls ctx)"
proof (intro conjI impI)
  assume n: "\<not> fse_exists w (secretPath w inp)"
  with assms show "jwtJWKSController w ctx =
              (payload_set ctx (input_get inp ''responseKey'') (JStr ''key not found''))
                \<lparr>status := Some 404\<rparr>"
    by (simp add: jwtJWKSController_def)
  then show "payload (jwtJWKSController w ctx) (js_to_string (input_get inp ''responseKey''))
                = Some (JStr ''key not found'')"
    and "status (jwtJWKSController w ctx) = Some 404"
    and "next_calls (jwtJWKSController w ctx) = next_calls ctx"
    by (simp_all add: payload_set_def)
next
  assume d: "fse_exists w (secretPath w inp) \<and> \<not> names_regular_file w (secretPath w inp)"
  then obtain p where p: "secretPath w inp = JStr p" "fs w p = Some Directory"
  proof (cases "secretPath w inp")
    case (JStr q)
    with d have "fs w q = Some Directory"
      by (cases "fs w q") (auto elim: isFile.elims)
    with JStr show ?thesis using that by blast
  qed simp_all
  then have r: "fse_readFile w (secretPath w inp) = Inl (fs_error ''EISDIR'')" by simp
  from d r assms show e: "jwtJWKSController w ctx =
              internalError ctx (input_get inp ''responseKey'') (fs_error ''EISDIR'')"
    by (simp add: jwtJWKSController_def)
  then show "payload (jwtJWKSController w ctx) (js_to_string (input_get inp ''responseKey''))
                = Some (JStr ''error occurred'')"
    and "status (jwtJWKSController w ctx) = Some 500"
    and "next_calls (jwtJWKSController w ctx) = next_calls ctx"
    by (simp_all add: internalError_def payload_set_def)
qed

text \<open>
  In the concrete world \<open>/keys/public.pem\<close> does not exist and \<open>/keys\<close> is a
  directory.
\<close>

theorem jwks_key_not_found_witness:
  "\<not> fse_exists demo_world
        (secretPath demo_world
           [(''responseKey'', JStr ''jwks''), (''publicKey'', JStr ''/keys/public.pem'')])
   \<and> jwtJWKSController demo_world
        (demo_context
           (Some [(''responseKey'', JStr ''jwks''), (''publicKey'', JStr ''/keys/public.pem'')])
           None)
      = (demo_context
           (Some [(''responseKey'', JStr ''jwks''), (''publicKey'', JStr ''/keys/public.pem'')])
           None)
          \<lparr>payload := [''jwks'' \<mapsto> JStr ''key not found''], status := Some 404\<rparr>
   \<and> fse_exists demo_world
        (secretPath demo_world [(''responseKey'', JStr ''jwks''), (''publicKey'', JStr ''/keys'')])
   \<and> jwtJWKSController demo_world
        (demo_context (Some [(''responseKey'', JStr ''jwks''), (''publicKey'', JStr ''/keys'')])
           None)
      = (demo_context (Some [(''responseKey'', JStr ''jwks''), (''publicKey'', JStr ''/keys'')])
           None)
          \<lparr>payload := [''jwks'' \<mapsto> JStr ''error occurred''], status := Some 500,
            logged := [fs_error ''EISDIR'']\<rparr>"
proof -
  let ?inp = "[(''responseKey'', JStr ''jwks''), (''publicKey'', JStr ''/keys/public.pem'')]"
  have p: "secretPath demo_world ?inp = JStr ''/keys/public.pem''"
    by (simp add: secretPath_def input_get_def)
  have e: "\<not> fse_exists demo_world (secretPath demo_world ?inp)"
    unfolding p by (simp add: demo_world_def)
  have i: "inputs (demo_context (Some ?inp) None) = Some ?inp" by (simp add: demo_context_def)
  from jwks_key_not_found [OF i, of demo_world, THEN conjunct1] e
  have 1: "jwtJWKSController demo_world (demo_context (Some ?inp) None) =
             (demo_context (Some ?inp) None)
               \<lparr>payload := [''jwks'' \<mapsto> JStr ''key not found''], status := Some 404\<rparr>"
    by (simp add: payload_set_def input_get_def demo_context_def)
  let ?dir = "[(''responseKey'', JStr ''jwks''), (''publicKey'', JStr ''/keys'')]"
  have pd: "secretPath demo_world ?dir = JStr ''/keys''"
    by (simp add: secretPath_def input_get_def)
  have ed: "fse_exists demo_world (secretPath demo_world ?dir)"
    unfolding pd by (simp add: demo_world_def)
  have nd: "\<not> names_regular_file demo_world (secretPath demo_world ?dir)"
    unfolding pd by (simp add: demo_world_def)
  have id: "inputs (demo_context (Some ?dir) None) = Some ?dir" by (simp add: demo_context_def)
  from jwks_key_not_found [OF id, of demo_world, THEN conjunct2] ed nd
  have 2: "jwtJWKSController demo_world (demo_context (Some ?dir) None) =
             (demo_context (Some ?dir) None)
               \<lparr>payload := [''jwks'' \<mapsto> JStr ''error occurred''], status := Some 500,
                 logged := [fs_error ''EISDIR'']\<rparr>"
    by (simp add: internalError_def payload_set_def input_get_def demo_context_def)
  from e 1 ed 2 show ?thesis by blast
qed

text \<open>
  Claim C8 as it is written fails for a path that names no file yet exists: \<open>/keys\<close>
  is a directory, and the controller answers 500 with \<open>error occurred\<close>, not 404 with
  \<open>key not found\<close>.
\<close>

theorem jwks_key_not_found_counterexample:
  "\<not> names_regular_file demo_world
        (secretPath demo_world [(''responseKey'', JStr ''jwks''), (''publicKey'', JStr ''/keys'')])
   \<and> status (jwtJWKSController demo_world
               (demo_context
                  (Some [(''responseKey'', JStr ''jwks''), (''publicKey'', JStr ''/keys'')])
                  None)) = Some 500
   \<and> payload (jwtJWKSController demo_world
                (demo_context
                   (Some [(''responseKey'', JStr ''jwks''), (''publicKey'', JStr ''/keys'')])
                   None)) ''jwks'' = Some (JStr ''error occurred'')"
  by (simp add: jwtJWKSController_def secretPath_def internalError_def payload_set_def
                input_get_def demo_world_def demo_context_def)

section \<open>Properties of the User-Details Fetcher\<close>

text \<open>
  Every exit of the \<open>try\<close> block through \<open>catch\<close> leaves on the shared client the
  credentials the library left there; only the success path resets them.
\<close>

lemma user_details_catch_keeps_credentials:
  assumes "getAccessToken w (JObj [(''refresh_token'', userRefreshToken)]) = (Inl error, creds)"
  shows "fetchUserInfo w mgr client config oc userRefreshToken ctx =
           (store_client mgr client config (oc\<lparr>credentials := creds\<rparr>),
            userDetailsFailed ctx error)"
  using assms by (simp add: fetchUserInfo_def)

text \<open>
  Claim C6 fails on the code. The client \<open>google\<close> is registered with empty
  credentials. With a refresh token the provider rejects, the controller ends in
  \<open>catch\<close> and the refresh token is still stored on the shared client; with a refresh
  token the provider accepts, the credentials are empty again afterwards.
\<close>

theorem user_details_error_keeps_credentials:
  "stored_credentials
     (fst (getUserDetails demo_world (Some demo_manager)
             (demo_context (Some (demo_user_inputs ''stale'')) None)))
     (JStr ''google'')
     = Some (JObj [(''refresh_token'', JStr ''stale'')])
   \<and> payload (snd (getUserDetails demo_world (Some demo_manager)
                      (demo_context (Some (demo_user_inputs ''stale'')) None))) ''msg''
     = Some (JObj [(''error'', JBool True),
                   (''message'', JStr ''Failed to get user details.''),
                   (''rawError'', JObj [(''message'', JStr ''invalid_grant'')])])
   \<and> stored_credentials
     (fst (getUserDetails demo_world (Some demo_manager)
             (demo_context (Some (demo_user_inputs ''fresh'')) None)))
     (JStr ''google'')
     = Some (JObj [])"
  by (simp add: getUserDetails_def fetchUserInfo_def store_client_def stored_credentials_def
                userDetailsFailed_def payload_msg_def call_next_def
                demo_world_def demo_getAccessToken_def demo_manager_def demo_user_inputs_def
                demo_context_def input_get_def lodash_isUndefined_def lodash_isNull_def Let_def)

text \<open>After the failed invocation the credentials of the shared client are not empty.\<close>

theorem user_details_error_keeps_credentials_witness:
  "stored_credentials
     (fst (getUserDetails demo_world (Some demo_manager)
             (demo_context (Some (demo_user_inputs ''stale'')) None)))
     (JStr ''google'')
     \<noteq> Some (JObj [])"
  using user_details_error_keeps_credentials by simp

section \<open>Properties of the Auth-URL Builder\<close>

lemma lodash_isElement_never: "\<not> lodash_isElement v"
  by (cases v) simp_all

text \<open>
  Whenever the credential check fails, the flags for \<open>clientId\<close> and \<open>clientSecret\<close> are
  computed with \<open>_.isElement\<close> and are false; only the flag for \<open>redirectUri\<close> is
  computed with \<open>_.isEmpty\<close>.
\<close>

lemma authurl_credentials_error:
  assumes "inputs ctx = Some inp"
      and "\<not> truthy (from_env w (input_get inp ''clientIdFromEnv'') (input_get inp ''clientId''))
           \<or> \<not> truthy (from_env w (input_get inp ''clientSecretFromEnv'')
                          (input_get inp ''clientSecret''))
           \<or> \<not> truthy (from_env w (input_get inp ''redirectUriFromEnv'')
                          (input_get inp ''redirectUri''))"
  shows "payload (generateGoogleAuthUrl w ctx) ''msg'' =
           Some (JObj [(''error'', JBool True),
                       (''message'', JStr ''Missing required Google OAuth client credentials''),
                       (''statusCode'', JNum 400),
                       (''missing'',
                        JObj [(''clientId'', JBool False),
                              (''clientSecret'', JBool False),
                              (''redirectUri'',
                               JBool (lodash_isEmpty
                                        (from_env w (input_get inp ''redirectUriFromEnv'')
                                           (input_get inp ''redirectUri''))))])])
         \<and> next_calls (generateGoogleAuthUrl w ctx) = next_calls ctx"
  using assms by (auto simp: generateGoogleAuthUrl_def Let_def lodash_isElement_never)

text \<open>
  Claim C7 fails on the code. The inputs have no \<open>clientId\<close>: the controller writes the
  error payload with \<open>statusCode\<close> 400 and does not call \<open>next()\<close>, but the flag
  \<open>missing.clientId\<close> of the absent field is \<open>false\<close>.
\<close>

theorem authurl_missing_flags_false:
  "input_get demo_authurl_inputs ''clientId'' = JUndefined
   \<and> payload (generateGoogleAuthUrl demo_world
                (demo_context (Some demo_authurl_inputs) None)) ''msg''
     = Some (JObj [(''error'', JBool True),
                   (''message'', JStr ''Missing required Google OAuth client credentials''),
                   (''statusCode'', JNum 400),
                   (''missing'',
                    JObj [(''clientId'', JBool False),
                          (''clientSecret'', JBool False),
                          (''redirectUri'', JBool False)])])
   \<and> next_calls (generateGoogleAuthUrl demo_world
                   (demo_context (Some demo_authurl_inputs) None)) = 0"
  by (simp add: generateGoogleAuthUrl_def from_env_def demo_authurl_inputs_def input_get_def
                demo_context_def Let_def)

text \<open>The flag written for the absent \<open>clientId\<close>, read back from the payload.\<close>

theorem authurl_missing_flags_false_witness:
  "map_option (\<lambda>msg. js_get (js_get msg ''missing'') ''clientId'')
     (payload (generateGoogleAuthUrl demo_world
                 (demo_context (Some demo_authurl_inputs) None)) ''msg'')
   = Some (JBool False)"
  using authurl_missing_flags_false by simp

end
